theory Spec2Isabelle
  imports Main "HOL-Library.AList" "HOL-Library.Sublist"
begin

section \<open>Python values\<close>

text \<open>
  Job parameters, the device descriptor and the data store are nested mappings and
  sequences of Python values. A dictionary is an association list with string keys;
  \<open>map_of\<close> reads it.
\<close>

datatype pyval =
    PNone
  | PBool bool
  | PInt int
  | PStr string
  | PList "pyval list"
  | PDict "(string \<times> pyval) list"

type_synonym pydict = "(string \<times> pyval) list"

text \<open>
  The exceptions the modelled code raises or lets through. A message built with
  \<open>%\<close> keeps its template. \<open>TarError\<close> stands for \<open>tarfile.TarError\<close> and its
  subclasses, \<open>OtherException\<close> for anything else the environment raises.
\<close>

datatype exn =
    KeyError string
  | TypeError
  | AttributeError
  | ValueError string
  | RuntimeError string
  | InfrastructureError string
  | JobError string
  | TarError
  | OSError
  | OtherException string

text \<open>Truth value of an object, as \<open>if x\<close> and \<open>not x\<close> test it.\<close>

fun truthy :: "pyval \<Rightarrow> bool" where
  "truthy PNone = False"
| "truthy (PBool b) = b"
| "truthy (PInt i) = (i \<noteq> 0)"
| "truthy (PStr s) = (s \<noteq> [])"
| "truthy (PList xs) = (xs \<noteq> [])"
| "truthy (PDict kvs) = (kvs \<noteq> [])"

text \<open>\<open>d.get(k, default)\<close> on a dictionary.\<close>

definition dict_get :: "pydict \<Rightarrow> string \<Rightarrow> pyval \<Rightarrow> pyval" where
  "dict_get d k dflt = (case map_of d k of None \<Rightarrow> dflt | Some v \<Rightarrow> v)"

text \<open>\<open>v[k]\<close> with a string key: KeyError on a missing key, TypeError on a non-mapping.\<close>

fun py_getitem :: "pyval \<Rightarrow> string \<Rightarrow> exn + pyval" where
  "py_getitem (PDict d) k = (case map_of d k of None \<Rightarrow> Inl (KeyError k) | Some v \<Rightarrow> Inr v)"
| "py_getitem PNone k = Inl TypeError"
| "py_getitem (PBool b) k = Inl TypeError"
| "py_getitem (PInt i) k = Inl TypeError"
| "py_getitem (PStr s) k = Inl TypeError"
| "py_getitem (PList xs) k = Inl TypeError"

text \<open>\<open>v.get(k, default)\<close>: only a dictionary has the method.\<close>

fun py_get :: "pyval \<Rightarrow> string \<Rightarrow> pyval \<Rightarrow> exn + pyval" where
  "py_get (PDict d) k dflt = Inr (dict_get d k dflt)"
| "py_get PNone k dflt = Inl AttributeError"
| "py_get (PBool b) k dflt = Inl AttributeError"
| "py_get (PInt i) k dflt = Inl AttributeError"
| "py_get (PStr s) k dflt = Inl AttributeError"
| "py_get (PList xs) k dflt = Inl AttributeError"

text \<open>
  \<open>k in v\<close> for a string \<open>k\<close>: key membership in a dictionary, element membership in
  a list, substring test in a string, TypeError otherwise.
\<close>

fun py_contains :: "string \<Rightarrow> pyval \<Rightarrow> exn + bool" where
  "py_contains k (PDict d) = Inr (k \<in> set (map fst d))"
| "py_contains k (PList xs) = Inr (PStr k \<in> set xs)"
| "py_contains k (PStr s) = Inr (sublist k s)"
| "py_contains k PNone = Inl TypeError"
| "py_contains k (PBool b) = Inl TypeError"
| "py_contains k (PInt i) = Inl TypeError"




fun add_str :: "pyval \<Rightarrow> string \<Rightarrow> exn + pyval" where
  "add_str (PStr a) b = Inr (PStr (a @ b))"
| "add_str PNone b = Inl TypeError"
| "add_str (PBool a) b = Inl TypeError"
| "add_str (PInt i) b = Inl TypeError"
| "add_str (PList xs) b = Inl TypeError"
| "add_str (PDict d) b = Inl TypeError"

subsection \<open>posixpath\<close>

text \<open>
  \<open>os.path.join(a, b)\<close> for a string \<open>b\<close>: an absolute \<open>b\<close> replaces \<open>a\<close>;
  otherwise \<open>a.endswith\<close> is called, which only a string has.
\<close>

fun os_path_join :: "pyval \<Rightarrow> string \<Rightarrow> exn + pyval" where
  "os_path_join a b =
     (if prefix ''/'' b then Inr (PStr b)
      else (case a of
              PStr p \<Rightarrow> Inr (PStr (if p = [] \<or> suffix ''/'' p then p @ b else p @ ''/'' @ b))
            | _ \<Rightarrow> Inl AttributeError))"

definition basename_str :: "string \<Rightarrow> string" where
  "basename_str p = rev (takeWhile (\<lambda>c. c \<noteq> CHR ''/'') (rev p))"

definition dirname_str :: "string \<Rightarrow> string" where
  "dirname_str p =
     (let head = rev (dropWhile (\<lambda>c. c \<noteq> CHR ''/'') (rev p))
      in if head \<noteq> [] \<and> \<not> list_all (\<lambda>c. c = CHR ''/'') head
         then rev (dropWhile (\<lambda>c. c = CHR ''/'') (rev head))
         else head)"

fun os_path_basename :: "pyval \<Rightarrow> exn + pyval" where
  "os_path_basename (PStr p) = Inr (PStr (basename_str p))"
| "os_path_basename v = Inl AttributeError"

fun os_path_dirname :: "pyval \<Rightarrow> exn + pyval" where
  "os_path_dirname (PStr p) = Inr (PStr (dirname_str p))"
| "os_path_dirname v = Inl AttributeError"

section \<open>State, environment and the execution monad\<close>

text \<open>
  Calls that leave the modelled files: the operating system, \<open>tarfile\<close>,
  \<open>subprocess\<close>, and the helpers of the dispatcher that are not among the sources
  (\<open>mkdtemp\<close>, \<open>which\<close>, \<open>infrastructure_error\<close>, \<open>Action._run_command\<close>). A command
  line or message built with \<open>%\<close> is given as its template and its arguments.
\<close>

datatype oscall =
    PathExists pyval
  | PathIsMount pyval
  | TarOpen pyval string
  | TarExtractAll pyval pyval
  | TarAdd pyval string pyval
  | TarClose pyval
  | TarExit pyval bool
  | Mkdtemp pyval
  | Mkdir pyval
  | Rename pyval pyval
  | Unlink pyval
  | Getcwd
  | Chdir pyval
  | System string "pyval list"
  | CheckOutput string "pyval list"
  | RunCommand string "pyval list"
  | Which string
  | InfrastructureErrorOf pyval

text \<open>
  The environment answers a call from the state \<open>'f\<close> of the file system (and of
  whatever else lies outside the process) and returns the new one. Every theorem
  below holds for every environment.
\<close>

type_synonym 'f environment = "oscall \<Rightarrow> 'f \<Rightarrow> (exn + pyval) \<times> 'f"

text \<open>
  What a running Action can change: the data store shared by the job (\<open>self.data\<close>),
  the world outside, and its own \<open>errors\<close> and \<open>sub_command\<close>.
\<close>

record 'f state =
  data :: pydict
  fs :: 'f
  errors :: "pyval list"
  sub_command :: "pyval list"

text \<open>
  A statement maps the state to an outcome, an exception (\<open>Inl\<close>) or a value
  (\<open>Inr\<close>), and the state it leaves; the state survives a raise.
\<close>

type_synonym ('a, 'f) prog = "'f state \<Rightarrow> (exn + 'a) \<times> 'f state"

definition ret :: "'a \<Rightarrow> ('a, 'f) prog" where
  "ret x = (\<lambda>s. (Inr x, s))"

definition raise :: "exn \<Rightarrow> ('a, 'f) prog" where
  "raise e = (\<lambda>s. (Inl e, s))"

definition pbind :: "('a, 'f) prog \<Rightarrow> ('a \<Rightarrow> ('b, 'f) prog) \<Rightarrow> ('b, 'f) prog" where
  "pbind m k = (\<lambda>s. case m s of (Inl e, s') \<Rightarrow> (Inl e, s') | (Inr x, s') \<Rightarrow> k x s')"

text \<open>An expression that only computes (and may raise).\<close>

definition lift :: "exn + 'a \<Rightarrow> ('a, 'f) prog" where
  "lift r = (\<lambda>s. (r, s))"

text \<open>\<open>try: m except ...: h\<close>; the handler decides what it catches.\<close>

definition except :: "('a, 'f) prog \<Rightarrow> (exn \<Rightarrow> ('a, 'f) prog) \<Rightarrow> ('a, 'f) prog" where
  "except m h = (\<lambda>s. case m s of (Inl e, s') \<Rightarrow> h e s' | (Inr x, s') \<Rightarrow> (Inr x, s'))"

definition call :: "'f environment \<Rightarrow> oscall \<Rightarrow> (pyval, 'f) prog" where
  "call env c = (\<lambda>s. case env c (fs s) of (r, f') \<Rightarrow> (r, s\<lparr>fs := f'\<rparr>))"

text \<open>\<open>self.data[k]\<close>.\<close>

definition data_item :: "string \<Rightarrow> (pyval, 'f) prog" where
  "data_item k = (\<lambda>s. (py_getitem (PDict (data s)) k, s))"

text \<open>\<open>self.data[name][k] = v\<close>: the entry \<open>name\<close> has to be there, and be a dictionary.\<close>

definition data_setitem :: "string \<Rightarrow> string \<Rightarrow> pyval \<Rightarrow> (unit, 'f) prog" where
  "data_setitem name k v = (\<lambda>s.
     case map_of (data s) name of
       None \<Rightarrow> (Inl (KeyError name), s)
     | Some (PDict d) \<Rightarrow> (Inr (), s\<lparr>data := AList.update name (PDict (AList.update k v d)) (data s)\<rparr>)
     | Some _ \<Rightarrow> (Inl TypeError, s))"

text \<open>\<open>self.data[name].setdefault(k, v)\<close>.\<close>

definition data_setdefault :: "string \<Rightarrow> string \<Rightarrow> pyval \<Rightarrow> (unit, 'f) prog" where
  "data_setdefault name k v = (\<lambda>s.
     case map_of (data s) name of
       None \<Rightarrow> (Inl (KeyError name), s)
     | Some (PDict d) \<Rightarrow>
         (if k \<in> set (map fst d) then (Inr (), s)
          else (Inr (), s\<lparr>data := AList.update name (PDict (AList.update k v d)) (data s)\<rparr>))
     | Some _ \<Rightarrow> (Inl AttributeError, s))"

text \<open>
  Modelled from the spec: the base class \<open>Action\<close> (lava_dispatcher/pipeline/action.py)
  is not among the sources. The spec says of a failed check that it is appended to
  \<open>errors\<close> and sets the Action invalid; an assignment \<open>self.errors = v\<close> of a value
  that reports no failure (\<open>None\<close>, as \<open>infrastructure_error\<close> returns for a tool
  that is there) appends nothing.
\<close>

definition set_errors :: "pyval \<Rightarrow> (unit, 'f) prog" where
  "set_errors v = (\<lambda>s. (Inr (), if truthy v then s\<lparr>errors := errors s @ [v]\<rparr> else s))"

text \<open>Modelled from the spec: \<open>self.valid\<close> of the base class, no error recorded.\<close>

definition valid :: "'f state \<Rightarrow> bool" where
  "valid s = (errors s = [])"

text \<open>
  \<open>tarfile.open(name, mode)\<close>: the library raises ValueError for a name that is
  false (no file object is passed anywhere), before it touches the file system.
\<close>

definition tarfile_open :: "'f environment \<Rightarrow> pyval \<Rightarrow> string \<Rightarrow> (pyval, 'f) prog" where
  "tarfile_open env name mode =
     (if \<not> truthy name then raise (ValueError ''nothing to open'')
      else call env (TarOpen name mode))"

text \<open>
  The three lines \<open>tar = tarfile.open(f); tar.extractall(d); tar.close()\<close> that every
  unpacking Action has in its \<open>try\<close> block.
\<close>

definition open_extractall_close :: "'f environment \<Rightarrow> pyval \<Rightarrow> pyval \<Rightarrow> (unit, 'f) prog" where
  "open_extractall_close env f d =
     pbind (tarfile_open env f ''r'') (\<lambda>tar.
     pbind (call env (TarExtractAll tar d)) (\<lambda>_.
     pbind (call env (TarClose tar)) (\<lambda>_.
     ret ())))"

text \<open>\<open>except tarfile.TarError as exc: raise e\<close>.\<close>

definition on_TarError :: "exn \<Rightarrow> exn \<Rightarrow> ('a, 'f) prog" where
  "on_TarError e exc = (if exc = TarError then raise e else raise exc)"

text \<open>\<open>except OSError as exc: raise e\<close>.\<close>

definition on_OSError :: "exn \<Rightarrow> exn \<Rightarrow> ('a, 'f) prog" where
  "on_OSError e exc = (if exc = OSError then raise e else raise exc)"

section \<open>lava_dispatcher/pipeline/actions/deploy/apply_overlay.py\<close>

text \<open>\<open>ApplyOverlayImage.run\<close>.\<close>

definition ApplyOverlayImage_run :: "'f environment \<Rightarrow> 'c \<Rightarrow> ('c, 'f) prog" where
  "ApplyOverlayImage_run env connection =
     pbind (data_item ''compress-overlay'') (\<lambda>co.
     pbind (lift (py_get co ''output'' PNone)) (\<lambda>output.
     if \<not> truthy output then raise (RuntimeError ''Unable to find the overlay'')
     else
     pbind (data_item ''loop_mount'') (\<lambda>lm.
     pbind (lift (py_getitem lm ''mntdir'')) (\<lambda>mntdir.
     pbind (call env (PathIsMount mntdir)) (\<lambda>mounted.
     if \<not> truthy mounted
     then raise (RuntimeError ''Image overlay requested to be applied but %s is not a mountpoint'')
     else
     pbind (except
        (pbind (data_item ''compress-overlay'') (\<lambda>co'.
         pbind (lift (py_get co' ''output'' PNone)) (\<lambda>output'.
         pbind (tarfile_open env output' ''r'') (\<lambda>tar.
         pbind (data_item ''loop_mount'') (\<lambda>lm'.
         pbind (lift (py_getitem lm' ''mntdir'')) (\<lambda>mntdir'.
         pbind (call env (TarExtractAll tar mntdir')) (\<lambda>_.
         pbind (call env (TarClose tar)) (\<lambda>_.
         ret ()))))))))
        (on_TarError (RuntimeError ''Unable to unpack overlay: %s''))) (\<lambda>_.
     ret connection))))))"

text \<open>\<open>ApplyOverlayTftp.run\<close>; \<open>parameters\<close> is \<open>self.parameters\<close>.\<close>

definition ApplyOverlayTftp_run :: "'f environment \<Rightarrow> pydict \<Rightarrow> 'c \<Rightarrow> ('c, 'f) prog" where
  "ApplyOverlayTftp_run env parameters connection =
     pbind
       (if dict_get parameters ''ramdisk'' PNone \<noteq> PNone then
          pbind (data_item ''compress-overlay'') (\<lambda>co.
          pbind (lift (py_get co ''output'' PNone)) (\<lambda>overlay_file.
          pbind (data_item ''extract-overlay-ramdisk'') (\<lambda>er.
          pbind (lift (py_getitem er ''extracted_ramdisk'')) (\<lambda>directory.
          ret (''ramdisk'', overlay_file, directory)))))
        else if dict_get parameters ''nfsrootfs'' PNone \<noteq> PNone then
          pbind (data_item ''compress-overlay'') (\<lambda>co.
          pbind (lift (py_get co ''output'' PNone)) (\<lambda>overlay_file.
          pbind (data_item ''extract-nfsrootfs'') (\<lambda>en.
          pbind (lift (py_get en ''nfsroot'' PNone)) (\<lambda>directory.
          ret (''nfsrootfs'', overlay_file, directory)))))
        else ret ('''', PNone, PNone))
       (\<lambda>(overlay_type, overlay_file, directory).
     pbind (except (open_extractall_close env overlay_file directory)
                   (on_TarError (RuntimeError ''Unable to unpack %s overlay: %s''))) (\<lambda>_.
     ret connection))"

text \<open>
  \<open>ExtractNfsRootfs.run\<close>. The logger call is left out; it changes nothing modelled
  here.
\<close>

definition ExtractNfsRootfs_run :: "'f environment \<Rightarrow> pydict \<Rightarrow> 'c \<Rightarrow> ('c, 'f) prog" where
  "ExtractNfsRootfs_run env parameters connection =
     (if \<not> truthy (dict_get parameters ''nfsrootfs'' PNone) then ret connection
      else
      pbind (data_item ''download_action'') (\<lambda>da.
      pbind (lift (py_getitem da ''nfsrootfs'')) (\<lambda>n.
      pbind (lift (py_getitem n ''file'')) (\<lambda>nfsroot.
      pbind (call env (Mkdtemp (PStr ''/var/lib/lava/dispatcher/tmp''))) (\<lambda>nfsroot_dir.
      pbind (except (open_extractall_close env nfsroot nfsroot_dir)
               (\<lambda>exc. if exc = TarError
                      then pbind (lift (os_path_basename nfsroot)) (\<lambda>_.
                           raise (JobError ''Unable to unpack nfsroot: '%s' - %s''))
                      else raise exc)) (\<lambda>_.
      pbind (data_setdefault ''extract-nfsrootfs'' ''nfsroot'' nfsroot_dir) (\<lambda>_.
      ret connection)))))))"

text \<open>\<open>ExtractModules.run\<close>.\<close>

definition ExtractModules_run :: "'f environment \<Rightarrow> pydict \<Rightarrow> 'c \<Rightarrow> ('c, 'f) prog" where
  "ExtractModules_run env parameters connection =
     (if \<not> truthy (dict_get parameters ''modules'' PNone) then ret connection
      else
      pbind
        (if \<not> truthy (dict_get parameters ''ramdisk'' PNone) then
           (if \<not> truthy (dict_get parameters ''nfsrootfs'' PNone)
            then raise (RuntimeError ''Unable to identify unpack location'')
            else pbind (data_item ''extract-nfsrootfs'') (\<lambda>en.
                 lift (py_getitem en ''nfsroot'')))
         else pbind (data_item ''extract-overlay-ramdisk'') (\<lambda>er.
              lift (py_getitem er ''extracted_ramdisk''))) (\<lambda>root.
      pbind (data_item ''download_action'') (\<lambda>da.
      pbind (lift (py_getitem da ''modules'')) (\<lambda>m.
      pbind (lift (py_getitem m ''file'')) (\<lambda>modules.
      pbind (except (open_extractall_close env modules root)
               (on_TarError (RuntimeError ''Unable to extract tarball: %s to %s''))) (\<lambda>_.
      pbind (except (call env (Unlink modules))
               (on_OSError (RuntimeError ''Unable to remove tarball: '%s' - %s''))) (\<lambda>_.
      ret connection)))))))"

text \<open>
  \<open>ExtractRamdisk.run\<close>. The two file names come from
  lava_dispatcher/pipeline/utils/constants.py, which is not among the sources: they
  are parameters. \<open>x is not ''\<close> compares with the one empty string object of the
  interpreter. The bare \<open>except:\<close> around the \<open>dd\<close> command catches everything.
\<close>

definition ExtractRamdisk_run ::
  "'f environment \<Rightarrow> string \<Rightarrow> string \<Rightarrow> pydict \<Rightarrow> 'c \<Rightarrow> ('c, 'f) prog" where
  "ExtractRamdisk_run env RAMDISK_COMPRESSED_FNAME RAMDISK_FNAME parameters connection =
     (if \<not> truthy (dict_get parameters ''ramdisk'' PNone) then ret connection
      else
      pbind (data_item ''download_action'') (\<lambda>da.
      pbind (lift (py_getitem da ''ramdisk'')) (\<lambda>r.
      pbind (lift (py_getitem r ''file'')) (\<lambda>ramdisk.
      pbind (call env (Mkdtemp PNone)) (\<lambda>ramdisk_dir.
      pbind (lift (os_path_join ramdisk_dir ''ramdisk'')) (\<lambda>extracted_ramdisk.
      pbind (call env (Mkdir extracted_ramdisk)) (\<lambda>_.
      pbind (lift (os_path_join ramdisk_dir RAMDISK_COMPRESSED_FNAME)) (\<lambda>ramdisk_compressed_data.
      pbind
        (if dict_get parameters ''ramdisk-type'' PNone = PStr ''u-boot'' then
           except (call env (RunCommand ''dd if=%s of=%s ibs=64 skip=1''
                               [ramdisk, ramdisk_compressed_data]))
                  (\<lambda>exc. raise (RuntimeError ''Unable to remove uboot header: %s''))
         else call env (Rename ramdisk ramdisk_compressed_data)) (\<lambda>_.
      pbind (call env (System ''file %s'' [ramdisk_compressed_data])) (\<lambda>_.
      pbind (call env (RunCommand ''gzip -d -f %s'' [ramdisk_compressed_data])) (\<lambda>out.
      if out \<noteq> PStr [] then raise (RuntimeError ''Unable to uncompress: %s'')
      else
      pbind (lift (os_path_join ramdisk_dir RAMDISK_FNAME)) (\<lambda>ramdisk_data.
      pbind (call env Getcwd) (\<lambda>pwd.
      pbind (call env (Chdir extracted_ramdisk)) (\<lambda>_.
      pbind (call env (RunCommand ''cpio -i -F %s'' [ramdisk_data])) (\<lambda>out'.
      if \<not> truthy out' then raise (RuntimeError ''Unable to uncompress: %s'')
      else
      pbind (call env (Chdir pwd)) (\<lambda>_.
      pbind (data_setitem ''extract-overlay-ramdisk'' ''extracted_ramdisk'' extracted_ramdisk) (\<lambda>_.
      pbind (data_setitem ''extract-overlay-ramdisk'' ''ramdisk_file'' ramdisk_data) (\<lambda>_.
      ret connection))))))))))))))))))"

text \<open>\<open>CompressRamdisk.run\<close>.\<close>

definition CompressRamdisk_run :: "'f environment \<Rightarrow> pydict \<Rightarrow> 'c \<Rightarrow> ('c, 'f) prog" where
  "CompressRamdisk_run env parameters connection =
     (if \<not> truthy (dict_get parameters ''ramdisk'' PNone) then ret connection
      else
      pbind (data_item ''extract-overlay-ramdisk'') (\<lambda>er.
      pbind (lift (py_contains ''extracted_ramdisk'' er)) (\<lambda>has_dir.
      if \<not> has_dir then raise (RuntimeError ''Unable to find unpacked ramdisk'')
      else
      pbind (lift (py_contains ''ramdisk_file'' er)) (\<lambda>has_file.
      if \<not> has_file then raise (RuntimeError ''Unable to find ramdisk directory'')
      else
      pbind (lift (py_getitem er ''extracted_ramdisk'')) (\<lambda>ramdisk_dir.
      pbind (lift (py_getitem er ''ramdisk_file'')) (\<lambda>ramdisk_data.
      pbind (call env Getcwd) (\<lambda>pwd.
      pbind (call env (Chdir ramdisk_dir)) (\<lambda>_.
      pbind (except (call env (CheckOutput ''find . | cpio --create --format='newc' > %s''
                                 [ramdisk_data]))
               (on_OSError (RuntimeError ''Unable to create cpio filesystem: %s''))) (\<lambda>log.
      pbind (lift (os_path_dirname ramdisk_data)) (\<lambda>data_dir.
      pbind (call env (Chdir data_dir)) (\<lambda>_.
      pbind (call env (RunCommand ''gzip %s'' [ramdisk_data])) (\<lambda>out.
      if out \<noteq> PStr [] then raise (RuntimeError ''Unable to compress cpio filesystem'')
      else
      pbind (call env (Chdir pwd)) (\<lambda>_.
      pbind (lift (os_path_dirname ramdisk_data)) (\<lambda>data_dir'.
      pbind (lift (os_path_join data_dir' ''ramdisk.cpio.gz'')) (\<lambda>final_file.
      pbind (data_item ''download_action'') (\<lambda>da.
      pbind (lift (py_getitem da ''ramdisk'')) (\<lambda>r.
      pbind (lift (py_getitem r ''file'')) (\<lambda>ramdisk.
      pbind (lift (os_path_dirname ramdisk)) (\<lambda>tftp_dir.
      pbind
        (if dict_get parameters ''ramdisk-type'' PNone = PStr ''u-boot'' then
           pbind (lift (add_str final_file ''.uboot'')) (\<lambda>ramdisk_uboot.
           pbind (call env (RunCommand ''mkimage -A arm -T ramdisk -C none -d %s %s''
                              [final_file, ramdisk_uboot])) (\<lambda>out'.
           if \<not> truthy out' then raise (RuntimeError ''Unable to add uboot header to ramdisk'')
           else ret ramdisk_uboot))
         else ret final_file) (\<lambda>final_file'.
      pbind (lift (os_path_basename final_file')) (\<lambda>base.
      pbind (lift (case base of PStr b \<Rightarrow> os_path_join tftp_dir b | _ \<Rightarrow> Inl AttributeError)) (\<lambda>dest.
      pbind (call env (Rename final_file' dest)) (\<lambda>_.
      pbind (data_setitem ''compress-ramdisk'' ''ramdisk'' final_file') (\<lambda>_.
      ret connection))))))))))))))))))))))))"

section \<open>lava_dispatcher/pipeline/actions/deploy/overlay.py\<close>

text \<open>
  \<open>CompressOverlay.run\<close>. \<open>Action_run\<close> is the \<open>run\<close> of the base class, which is not
  among the sources: it is a parameter. \<open>job_parameters\<close> is \<open>self.job.parameters\<close>
  and \<open>level\<close> is \<open>self.level\<close>. The \<open>with\<close> statement leaves the archive through
  \<open>TarExit\<close>, told whether its body raised, and an exception of the body goes on
  from there.
\<close>

definition CompressOverlay_run ::
  "'f environment \<Rightarrow> ('c \<Rightarrow> ('c, 'f) prog) \<Rightarrow> pydict \<Rightarrow> string \<Rightarrow> 'c \<Rightarrow> ('c, 'f) prog" where
  "CompressOverlay_run env Action_run job_parameters level connection =
     pbind (data_item ''lava-overlay'') (\<lambda>lo.
     pbind (lift (py_contains ''location'' lo)) (\<lambda>has_location.
     if \<not> has_location then raise (RuntimeError ''Missing lava overlay location'')
     else
     pbind (lift (py_getitem lo ''location'')) (\<lambda>loc.
     pbind (call env (PathExists loc)) (\<lambda>there.
     if \<not> truthy there then raise (RuntimeError ''Unable to find overlay location'')
     else
     (\<lambda>s. if \<not> valid s then ret connection s
      else
     (pbind (Action_run connection) (\<lambda>connection'.
      pbind (data_item ''lava-overlay'') (\<lambda>lo'.
      pbind (lift (py_getitem lo' ''location'')) (\<lambda>location.
      pbind (lift (py_getitem (PDict job_parameters) ''output_dir'')) (\<lambda>output_dir.
      pbind (lift (os_path_join output_dir (''overlay-'' @ level @ ''.tar.gz''))) (\<lambda>output.
      pbind (call env Getcwd) (\<lambda>cur_dir.
      pbind (except
         (pbind (tarfile_open env output ''w:gz'') (\<lambda>tar.
          pbind (except
                   (pbind (call env (Chdir location)) (\<lambda>_.
                    pbind (data_item ''lava_test_results_dir'') (\<lambda>results_dir.
                    pbind (call env (TarAdd tar ''.%s'' results_dir)) (\<lambda>_.
                    ret ()))))
                   (\<lambda>exc. pbind (call env (TarExit tar True)) (\<lambda>_. raise exc))) (\<lambda>_.
          pbind (call env (TarExit tar False)) (\<lambda>_.
          ret ()))))
         (\<lambda>exc. if exc = TarError
                then pbind (set_errors (PStr ''Unable to create lava overlay tarball: %s'')) (\<lambda>_.
                     raise (RuntimeError ''Unable to create lava overlay tarball: %s''))
                else raise exc)) (\<lambda>_.
      pbind (call env (Chdir cur_dir)) (\<lambda>_.
      pbind (data_setitem ''compress-overlay'' ''output'' output) (\<lambda>_.
      ret connection'))))))))) s))))))"

section \<open>Validation\<close>

text \<open>
  In each \<open>validate\<close>, \<open>super_validate\<close> is the call \<open>super(...).validate()\<close> into the
  base class, which is not among the sources: it is a parameter.
\<close>


text \<open>\<open>ExtractModules.validate\<close> and \<open>ExtractRamdisk.validate\<close>: both branches return.\<close>

definition ExtractModules_validate :: "(unit, 'f) prog \<Rightarrow> pydict \<Rightarrow> (unit, 'f) prog" where
  "ExtractModules_validate super_validate parameters =
     pbind super_validate (\<lambda>_.
     if \<not> truthy (dict_get parameters ''modules'' PNone) then ret () else ret ())"

definition ExtractRamdisk_validate :: "(unit, 'f) prog \<Rightarrow> pydict \<Rightarrow> (unit, 'f) prog" where
  "ExtractRamdisk_validate super_validate parameters =
     pbind super_validate (\<lambda>_.
     if \<not> truthy (dict_get parameters ''ramdisk'' PNone) then ret () else ret ())"


section \<open>lava_dispatcher/pipeline/actions/boot/pyocd.py\<close>










section \<open>A small environment\<close>

text \<open>
  The theorems hold for every environment; to evaluate the models on concrete
  inputs, here is one: a disk with a set of paths, a set of mount points and a
  working directory. An archive opened for writing appears on the disk, extracting
  creates the target directory, and a command is found when it is under /usr/bin.
\<close>

record disk =
  paths :: "string list"
  mounts :: "string list"
  cwd :: string

fun small_env :: "disk environment" where
  "small_env (PathExists (PStr p)) d = (Inr (PBool (p \<in> set (paths d))), d)"
| "small_env (PathIsMount (PStr p)) d = (Inr (PBool (p \<in> set (mounts d))), d)"
| "small_env (TarOpen (PStr p) mode) d =
     (if mode = ''r''
      then (if p \<in> set (paths d) then (Inr (PStr p), d) else (Inl (OtherException ''IOError''), d))
      else (Inr (PStr p), d\<lparr>paths := p # paths d\<rparr>))"
| "small_env (TarExtractAll tar (PStr dir)) d = (Inr PNone, d\<lparr>paths := dir # paths d\<rparr>)"
| "small_env (TarAdd tar template v) d = (Inr PNone, d)"
| "small_env (TarClose tar) d = (Inr PNone, d)"
| "small_env (TarExit tar raised) d = (Inr PNone, d)"
| "small_env Getcwd d = (Inr (PStr (cwd d)), d)"
| "small_env (Chdir (PStr p)) d = (Inr PNone, d\<lparr>cwd := p\<rparr>)"
| "small_env (Which tool) d =
     (if (''/usr/bin/'' @ tool) \<in> set (paths d) then (Inr (PStr (''/usr/bin/'' @ tool)), d)
      else (Inl (InfrastructureError ''Cannot find command '%s' in $PATH''), d))"
| "small_env (InfrastructureErrorOf (PStr tool)) d =
     (if (''/usr/bin/'' @ tool) \<in> set (paths d) then (Inr PNone, d)
      else (Inr (PStr ''Cannot find command '%s' in $PATH''), d))"
| "small_env c d = (Inl OSError, d)"

definition disk0 :: disk where
  "disk0 = \<lparr>paths = [''/tmp/overlay'', ''/mnt/image'', ''/tmp/out''], mounts = [''/mnt/image''],
            cwd = ''/''\<rparr>"

text \<open>A state with the given store on the given disk, no error recorded.\<close>

definition state_of :: "pydict \<Rightarrow> disk \<Rightarrow> disk state" where
  "state_of d f = \<lparr>data = d, fs = f, errors = [], sub_command = []\<rparr>"

section \<open>Reasoning about statements\<close>

text \<open>A statement that, when it returns, returns \<open>c\<close>.\<close>

definition returns_only :: "'c \<Rightarrow> ('c, 'f) prog \<Rightarrow> bool" where
  "returns_only c m = (\<forall>s c'. fst (m s) = Inr c' \<longrightarrow> c' = c)"


lemma pbind_ret [simp]: "pbind (ret x) k s = k x s"
  by (simp add: pbind_def ret_def)

lemma pbind_raise [simp]: "pbind (raise e) k s = (Inl e, s)"
  by (simp add: pbind_def raise_def)

lemma pbind_lift_Inr [simp]: "pbind (lift (Inr x)) k s = k x s"
  by (simp add: pbind_def lift_def)

lemma pbind_lift_Inl [simp]: "pbind (lift (Inl e)) k s = (Inl e, s)"
  by (simp add: pbind_def lift_def)

lemma ret_apply [simp]: "ret x s = (Inr x, s)"
  by (simp add: ret_def)

lemma raise_apply [simp]: "raise e s = (Inl e, s)"
  by (simp add: raise_def)

lemma dict_get_absent [simp]: "map_of d k = None \<Longrightarrow> dict_get d k dflt = dflt"
  by (simp add: dict_get_def)

lemma dict_get_present [simp]: "map_of d k = Some v \<Longrightarrow> dict_get d k dflt = v"
  by (simp add: dict_get_def)

lemma key_in_dict: "map_of d k = Some v \<Longrightarrow> k \<in> fst ` set d"
  by (metis map_of_eq_None_iff option.distinct(1))

lemma key_not_in_dict: "map_of d k = None \<Longrightarrow> k \<notin> fst ` set d"
  by (simp add: map_of_eq_None_iff)

lemma pbind_call:
  "env c (fs s) = (Inr x, f') \<Longrightarrow> pbind (call env c) k s = k x (s\<lparr>fs := f'\<rparr>)"
  by (simp add: pbind_def call_def)

lemma pbind_call_Inl:
  "env c (fs s) = (Inl e, f') \<Longrightarrow> pbind (call env c) k s = (Inl e, s\<lparr>fs := f'\<rparr>)"
  by (simp add: pbind_def call_def)

lemma pbind_data_item_Some:
  "map_of (data s) k = Some v \<Longrightarrow> pbind (data_item k) f s = f v s"
  by (simp add: pbind_def data_item_def)

lemma pbind_data_item_None:
  "map_of (data s) k = None \<Longrightarrow> pbind (data_item k) f s = (Inl (KeyError k), s)"
  by (simp add: pbind_def data_item_def)

subsection \<open>What a statement that returned has gone through\<close>

lemma pbind_Inr_iff:
  "pbind m k s = (Inr x, s') \<longleftrightarrow> (\<exists>y t. m s = (Inr y, t) \<and> k y t = (Inr x, s'))"
  by (auto simp: pbind_def split: sum.splits prod.splits)

lemma lift_Inr_iff: "lift r s = (Inr v, t) \<longleftrightarrow> r = Inr v \<and> t = s"
  by (auto simp: lift_def)

lemma data_item_Inr_iff:
  "data_item k s = (Inr v, t) \<longleftrightarrow> map_of (data s) k = Some v \<and> t = s"
  by (auto simp: data_item_def split: option.splits)

lemma call_Inr_iff:
  "call env c s = (Inr v, t) \<longleftrightarrow> (\<exists>f'. env c (fs s) = (Inr v, f') \<and> t = s\<lparr>fs := f'\<rparr>)"
  by (auto simp: call_def split: prod.splits)

lemma data_setitem_Inr:
  "data_setitem name k v s = (Inr u, t) \<Longrightarrow>
     \<exists>d. map_of (data t) name = Some (PDict d) \<and> map_of d k = Some v"
  by (auto simp: data_setitem_def update_conv' split: option.splits pyval.splits)

lemmas inversion = pbind_Inr_iff lift_Inr_iff data_item_Inr_iff call_Inr_iff

lemma unpack_Inr_truthy:
  "except (open_extractall_close env f d) (on_TarError e) s = (Inr u, s') \<Longrightarrow> truthy f"
  by (auto simp: except_def open_extractall_close_def tarfile_open_def on_TarError_def
        pbind_def split: if_splits sum.splits prod.splits)

lemma fst_InrE:
  assumes "fst (m s) = Inr x"
  obtains s' where "m s = (Inr x, s')"
  using assms by (cases "m s") auto

subsection \<open>Statements that return the connection they are given\<close>

lemma returns_only_ret: "returns_only c (ret c)"
  by (simp add: returns_only_def)

lemma returns_only_raise: "returns_only c (raise e)"
  by (simp add: returns_only_def)

lemma returns_only_pbind: "(\<And>x. returns_only c (k x)) \<Longrightarrow> returns_only c (pbind m k)"
  by (fastforce simp: returns_only_def pbind_def split: sum.splits prod.splits)

lemma returns_only_pbind_same:
  assumes m: "returns_only c m" and k: "returns_only c (k c)"
  shows "returns_only c (pbind m k)"
  unfolding returns_only_def
proof (intro allI impI)
  fix s c'
  assume r: "fst (pbind m k s) = Inr c'"
  obtain o1 s1 where ms: "m s = (o1, s1)" by (cases "m s")
  show "c' = c"
  proof (cases o1)
    case (Inl e)
    with ms r show ?thesis by (simp add: pbind_def)
  next
    case (Inr y)
    with ms m have "y = c" by (auto simp: returns_only_def dest!: spec [where x = s])
    with ms Inr r have "fst (k c s1) = Inr c'" by (simp add: pbind_def)
    with k show ?thesis by (simp add: returns_only_def)
  qed
qed

lemma returns_only_if:
  "(P \<Longrightarrow> returns_only c m) \<Longrightarrow> (\<not> P \<Longrightarrow> returns_only c n) \<Longrightarrow>
   returns_only c (if P then m else n)"
  by simp

lemma returns_only_state_if:
  "returns_only c m \<Longrightarrow> returns_only c n \<Longrightarrow> returns_only c (\<lambda>s. if P s then m s else n s)"
  by (simp add: returns_only_def)

lemma returns_only_case_prod:
  "(\<And>a b. returns_only c (f a b)) \<Longrightarrow> returns_only c (case_prod f x)"
  by (cases x) simp

lemma returns_onlyD: "returns_only c m \<Longrightarrow> fst (m s) = Inr c' \<Longrightarrow> c' = c"
  by (simp add: returns_only_def)

lemmas returns_only_intros =
  returns_only_pbind returns_only_if returns_only_state_if returns_only_case_prod
  returns_only_ret returns_only_raise

lemma ApplyOverlayImage_returns_only: "returns_only c (ApplyOverlayImage_run env c)"
  unfolding ApplyOverlayImage_run_def by (intro returns_only_intros)

lemma ApplyOverlayTftp_returns_only: "returns_only c (ApplyOverlayTftp_run env p c)"
  unfolding ApplyOverlayTftp_run_def by (intro returns_only_intros)

lemma ExtractNfsRootfs_returns_only: "returns_only c (ExtractNfsRootfs_run env p c)"
  unfolding ExtractNfsRootfs_run_def by (intro returns_only_intros)

lemma ExtractModules_returns_only: "returns_only c (ExtractModules_run env p c)"
  unfolding ExtractModules_run_def by (intro returns_only_intros)

lemma ExtractRamdisk_returns_only: "returns_only c (ExtractRamdisk_run env a b p c)"
  unfolding ExtractRamdisk_run_def by (intro returns_only_intros)

lemma CompressRamdisk_returns_only: "returns_only c (CompressRamdisk_run env p c)"
  unfolding CompressRamdisk_run_def by (intro returns_only_intros)

lemma CompressOverlay_returns_only:
  assumes "returns_only c (Action_run c)"
  shows "returns_only c (CompressOverlay_run env Action_run jp level c)"
  unfolding CompressOverlay_run_def
  by (intro returns_only_pbind returns_only_if returns_only_state_if returns_only_raise
        returns_only_ret returns_only_pbind_same [OF assms])

subsection \<open>Statements that leave the state alone\<close>















section \<open>The claims\<close>





text \<open>
  C2, as the code has it. The claim says that a read of a key that was never written
  gives an absent signal without raising, and that the reader takes absence as
  nothing to do. The counterexample: \<open>ApplyOverlayTftp.run\<close> of a job with a
  \<open>ramdisk\<close>, where the overlay tarball is recorded and \<open>extracted_ramdisk\<close> was never
  written, raises KeyError.
\<close>

theorem absent_read_raises_counterexample:
  "ApplyOverlayTftp_run small_env
     [(''ramdisk'', PDict [(''url'', PStr ''http://images/ramdisk.cpio.gz'')])] (7::nat)
     (state_of [(''compress-overlay'', PDict [(''output'', PStr ''/tmp/overlay'')]),
                (''extract-overlay-ramdisk'', PDict [])] disk0) =
   (Inl (KeyError ''extracted_ramdisk''),
    state_of [(''compress-overlay'', PDict [(''output'', PStr ''/tmp/overlay'')]),
              (''extract-overlay-ramdisk'', PDict [])] disk0)"
  by (simp add: ApplyOverlayTftp_run_def state_of_def pbind_def data_item_def lift_def
        dict_get_def)

text \<open>
  C2, amended. A \<open>.get\<close> read of a key that was never written returns \<open>None\<close> and
  does not raise; a subscript read of such a key raises KeyError. The reading
  Actions do not take absence as nothing to do. \<open>ApplyOverlayTftp.run\<close> raises
  KeyError when a ramdisk is requested and no \<open>extracted_ramdisk\<close> was recorded, and
  ValueError, from opening \<open>None\<close>, when no overlay \<open>output\<close> was recorded.
  \<open>ExtractModules.run\<close> raises KeyError when modules are requested and the directory
  to unpack into was never recorded. Each of them leaves the store and the file
  system as they were.
\<close>

theorem absent_reads:
  "(map_of d k = None \<longrightarrow>
      py_get (PDict d) k PNone = Inr PNone \<and> py_getitem (PDict d) k = Inl (KeyError k)) \<and>
   (dict_get parameters ''ramdisk'' PNone \<noteq> PNone \<and>
    map_of (data s) ''compress-overlay'' = Some (PDict co) \<and>
    map_of (data s) ''extract-overlay-ramdisk'' = Some (PDict er) \<and>
    map_of er ''extracted_ramdisk'' = None \<longrightarrow>
      ApplyOverlayTftp_run env parameters connection s =
        (Inl (KeyError ''extracted_ramdisk''), s)) \<and>
   (dict_get parameters ''ramdisk'' PNone = PNone \<and>
    dict_get parameters ''nfsrootfs'' PNone \<noteq> PNone \<and>
    map_of (data s) ''compress-overlay'' = Some (PDict co) \<and> map_of co ''output'' = None \<and>
    map_of (data s) ''extract-nfsrootfs'' = Some (PDict en) \<longrightarrow>
      ApplyOverlayTftp_run env parameters connection s =
        (Inl (ValueError ''nothing to open''), s)) \<and>
   (truthy (dict_get parameters ''modules'' PNone) \<and>
    truthy (dict_get parameters ''ramdisk'' PNone) \<and>
    map_of (data s) ''extract-overlay-ramdisk'' = Some (PDict er) \<and>
    map_of er ''extracted_ramdisk'' = None \<longrightarrow>
      ExtractModules_run env parameters connection s =
        (Inl (KeyError ''extracted_ramdisk''), s)) \<and>
   (truthy (dict_get parameters ''modules'' PNone) \<and>
    \<not> truthy (dict_get parameters ''ramdisk'' PNone) \<and>
    truthy (dict_get parameters ''nfsrootfs'' PNone) \<and>
    map_of (data s) ''extract-nfsrootfs'' = Some (PDict en) \<and>
    map_of en ''nfsroot'' = None \<longrightarrow>
      ExtractModules_run env parameters connection s = (Inl (KeyError ''nfsroot''), s))"
  by (simp add: ApplyOverlayTftp_run_def ExtractModules_run_def pbind_def data_item_def
        lift_def open_extractall_close_def tarfile_open_def except_def on_TarError_def)

theorem absent_reads_witness:
  "py_get (PDict [(''output'', PStr ''/tmp/overlay'')]) ''nfsroot'' PNone = Inr PNone \<and>
   py_getitem (PDict [(''output'', PStr ''/tmp/overlay'')]) ''nfsroot'' =
     Inl (KeyError ''nfsroot'') \<and>
   ApplyOverlayTftp_run small_env
     [(''nfsrootfs'', PDict [(''url'', PStr ''http://images/rootfs.tar.gz'')])] (7::nat)
     (state_of [(''compress-overlay'', PDict []), (''extract-nfsrootfs'', PDict [])] disk0) =
     (Inl (ValueError ''nothing to open''),
      state_of [(''compress-overlay'', PDict []), (''extract-nfsrootfs'', PDict [])] disk0) \<and>
   ExtractModules_run small_env
     [(''modules'', PDict [(''url'', PStr ''http://images/modules.tar.gz'')]),
      (''nfsrootfs'', PDict [(''url'', PStr ''http://images/rootfs.tar.gz'')])] (7::nat)
     (state_of [(''extract-nfsrootfs'', PDict [])] disk0) =
     (Inl (KeyError ''nfsroot''), state_of [(''extract-nfsrootfs'', PDict [])] disk0)"
proof -
  let ?p1 = "[(''nfsrootfs'', PDict [(''url'', PStr ''http://images/rootfs.tar.gz'')])]"
  let ?s1 = "state_of [(''compress-overlay'', PDict []), (''extract-nfsrootfs'', PDict [])] disk0"
  let ?p2 = "[(''modules'', PDict [(''url'', PStr ''http://images/modules.tar.gz'')]),
              (''nfsrootfs'', PDict [(''url'', PStr ''http://images/rootfs.tar.gz'')])]"
  let ?s2 = "state_of [(''extract-nfsrootfs'', PDict [])] disk0"
  have 1: "py_get (PDict [(''output'', PStr ''/tmp/overlay'')]) ''nfsroot'' PNone = Inr PNone \<and>
           py_getitem (PDict [(''output'', PStr ''/tmp/overlay'')]) ''nfsroot'' =
             Inl (KeyError ''nfsroot'')"
    using absent_reads [of "[(''output'', PStr ''/tmp/overlay'')]" "''nfsroot''"]
    by simp
  have 2: "ApplyOverlayTftp_run small_env ?p1 (7::nat) ?s1 =
             (Inl (ValueError ''nothing to open''), ?s1)"
    using absent_reads [of _ _ ?p1 ?s1 "[]" _ small_env "7::nat" "[]"]
    by (simp add: state_of_def dict_get_def)
  have 3: "ExtractModules_run small_env ?p2 (7::nat) ?s2 = (Inl (KeyError ''nfsroot''), ?s2)"
    using absent_reads [of _ _ ?p2 ?s2 _ _ small_env "7::nat" "[]"]
    by (simp add: state_of_def dict_get_def)
  from 1 2 3 show ?thesis by blast
qed



text \<open>
  C5. With the \<open>lava-overlay\<close> entry of the store in place: when no \<open>location\<close> is
  recorded under it, or the recorded location does not exist on disk,
  \<open>CompressOverlay.run\<close> raises RuntimeError before any archiving (nothing but the
  existence check has reached the environment, and the store is untouched). When a
  valid CompressOverlay returns, so that it did archive, the store holds the path of
  the tarball, \<open>output_dir/overlay-<level>.tar.gz\<close>, under
  \<open>compress-overlay\<close> / \<open>output\<close>.
\<close>

theorem CompressOverlay_run_location_and_output:
  "(map_of (data s) ''lava-overlay'' = Some (PDict lo) \<and> map_of lo ''location'' = None \<longrightarrow>
      CompressOverlay_run env Action_run job_parameters level connection s =
        (Inl (RuntimeError ''Missing lava overlay location''), s)) \<and>
   (map_of (data s) ''lava-overlay'' = Some (PDict lo) \<and> map_of lo ''location'' = Some loc \<and>
    env (PathExists loc) (fs s) = (Inr there, f') \<and> \<not> truthy there \<longrightarrow>
      CompressOverlay_run env Action_run job_parameters level connection s =
        (Inl (RuntimeError ''Unable to find overlay location''), s\<lparr>fs := f'\<rparr>)) \<and>
   (valid s \<and>
    CompressOverlay_run env Action_run job_parameters level connection s = (Inr c', s') \<longrightarrow>
      (\<exists>output_dir output d.
         map_of job_parameters ''output_dir'' = Some output_dir \<and>
         os_path_join output_dir (''overlay-'' @ level @ ''.tar.gz'') = Inr output \<and>
         map_of (data s') ''compress-overlay'' = Some (PDict d) \<and>
         map_of d ''output'' = Some output))"
proof (intro conjI impI)
  assume "map_of (data s) ''lava-overlay'' = Some (PDict lo) \<and> map_of lo ''location'' = None"
  then show "CompressOverlay_run env Action_run job_parameters level connection s =
               (Inl (RuntimeError ''Missing lava overlay location''), s)"
    by (simp add: CompressOverlay_run_def pbind_data_item_Some key_not_in_dict)
next
  assume "map_of (data s) ''lava-overlay'' = Some (PDict lo) \<and> map_of lo ''location'' = Some loc \<and>
          env (PathExists loc) (fs s) = (Inr there, f') \<and> \<not> truthy there"
  then show "CompressOverlay_run env Action_run job_parameters level connection s =
               (Inl (RuntimeError ''Unable to find overlay location''), s\<lparr>fs := f'\<rparr>)"
    by (simp add: CompressOverlay_run_def pbind_data_item_Some pbind_call key_in_dict)
next
  assume "valid s \<and>
          CompressOverlay_run env Action_run job_parameters level connection s = (Inr c', s')"
  then show "\<exists>output_dir output d.
               map_of job_parameters ''output_dir'' = Some output_dir \<and>
               os_path_join output_dir (''overlay-'' @ level @ ''.tar.gz'') = Inr output \<and>
               map_of (data s') ''compress-overlay'' = Some (PDict d) \<and>
               map_of d ''output'' = Some output"
    unfolding CompressOverlay_run_def
    by (auto simp: inversion valid_def split: if_splits option.splits
          simp del: os_path_join.simps dest!: data_setitem_Inr)
qed


theorem CompressOverlay_run_location_and_output_witness:
  "CompressOverlay_run small_env ret [(''output_dir'', PStr ''/tmp/out'')] ''1.2'' (7::nat)
     (state_of [(''lava-overlay'', PDict [])] disk0) =
     (Inl (RuntimeError ''Missing lava overlay location''),
      state_of [(''lava-overlay'', PDict [])] disk0) \<and>
   CompressOverlay_run small_env ret [(''output_dir'', PStr ''/tmp/out'')] ''1.2'' (7::nat)
     (state_of [(''lava-overlay'', PDict [(''location'', PStr ''/tmp/gone'')])] disk0) =
     (Inl (RuntimeError ''Unable to find overlay location''),
      state_of [(''lava-overlay'', PDict [(''location'', PStr ''/tmp/gone'')])] disk0) \<and>
   valid (state_of [(''lava-overlay'', PDict [(''location'', PStr ''/tmp/overlay'')]),
                    (''compress-overlay'', PDict []),
                    (''lava_test_results_dir'', PStr ''/lava-1'')] disk0) \<and>
   CompressOverlay_run small_env ret [(''output_dir'', PStr ''/tmp/out'')] ''1.2'' (7::nat)
     (state_of [(''lava-overlay'', PDict [(''location'', PStr ''/tmp/overlay'')]),
                (''compress-overlay'', PDict []),
                (''lava_test_results_dir'', PStr ''/lava-1'')] disk0) =
     (Inr 7,
      state_of [(''lava-overlay'', PDict [(''location'', PStr ''/tmp/overlay'')]),
                (''compress-overlay'', PDict [(''output'', PStr ''/tmp/out/overlay-1.2.tar.gz'')]),
                (''lava_test_results_dir'', PStr ''/lava-1'')]
        (disk0\<lparr>paths := ''/tmp/out/overlay-1.2.tar.gz'' # paths disk0\<rparr>)) \<and>
   (\<exists>output_dir output d.
      map_of [(''output_dir'', PStr ''/tmp/out'')] ''output_dir'' = Some output_dir \<and>
      os_path_join output_dir (''overlay-'' @ ''1.2'' @ ''.tar.gz'') = Inr output \<and>
      map_of (data (state_of
          [(''lava-overlay'', PDict [(''location'', PStr ''/tmp/overlay'')]),
           (''compress-overlay'', PDict [(''output'', PStr ''/tmp/out/overlay-1.2.tar.gz'')]),
           (''lava_test_results_dir'', PStr ''/lava-1'')]
          (disk0\<lparr>paths := ''/tmp/out/overlay-1.2.tar.gz'' # paths disk0\<rparr>)))
        ''compress-overlay'' = Some (PDict d) \<and>
      map_of d ''output'' = Some output)"
proof -
  let ?jp = "[(''output_dir'', PStr ''/tmp/out'')]"
  let ?s1 = "state_of [(''lava-overlay'', PDict [])] disk0"
  let ?s2 = "state_of [(''lava-overlay'', PDict [(''location'', PStr ''/tmp/gone'')])] disk0"
  let ?s3 = "state_of [(''lava-overlay'', PDict [(''location'', PStr ''/tmp/overlay'')]),
                       (''compress-overlay'', PDict []),
                       (''lava_test_results_dir'', PStr ''/lava-1'')] disk0"
  let ?s4 = "state_of
      [(''lava-overlay'', PDict [(''location'', PStr ''/tmp/overlay'')]),
       (''compress-overlay'', PDict [(''output'', PStr ''/tmp/out/overlay-1.2.tar.gz'')]),
       (''lava_test_results_dir'', PStr ''/lava-1'')]
      (disk0\<lparr>paths := ''/tmp/out/overlay-1.2.tar.gz'' # paths disk0\<rparr>)"
  have v: "valid ?s3"
    by (simp add: valid_def state_of_def)
  have run: "CompressOverlay_run small_env ret ?jp ''1.2'' (7::nat) ?s3 = (Inr 7, ?s4)"
    by (simp add: CompressOverlay_run_def state_of_def disk0_def valid_def pbind_def
          data_item_def lift_def call_def except_def tarfile_open_def data_setitem_def
          suffix_to_prefix)
  have a: "CompressOverlay_run small_env ret ?jp ''1.2'' (7::nat) ?s1 =
             (Inl (RuntimeError ''Missing lava overlay location''), ?s1)"
    using CompressOverlay_run_location_and_output
      [of ?s1 "[]" small_env ret ?jp "''1.2''" "7::nat"]
    by (simp add: state_of_def)
  have b: "CompressOverlay_run small_env ret ?jp ''1.2'' (7::nat) ?s2 =
             (Inl (RuntimeError ''Unable to find overlay location''), ?s2)"
    using CompressOverlay_run_location_and_output
      [of ?s2 "[(''location'', PStr ''/tmp/gone'')]" small_env ret ?jp "''1.2''" "7::nat"
          "PStr ''/tmp/gone''" "PBool False" disk0]
    by (simp add: state_of_def disk0_def)
  have c: "\<exists>output_dir output d.
      map_of ?jp ''output_dir'' = Some output_dir \<and>
      os_path_join output_dir (''overlay-'' @ ''1.2'' @ ''.tar.gz'') = Inr output \<and>
      map_of (data ?s4) ''compress-overlay'' = Some (PDict d) \<and>
      map_of d ''output'' = Some output"
    using CompressOverlay_run_location_and_output
      [of ?s3 lo small_env ret ?jp "''1.2''" "7::nat" loc there f' 7 ?s4] v run
    by blast
  from a b v run c show ?thesis by blast
qed



text \<open>
  C7. A deploy-family Action returns the Connection it received: whenever the \<open>run\<close>
  of ApplyOverlayImage, ApplyOverlayTftp, ExtractNfsRootfs, ExtractModules,
  ExtractRamdisk or CompressRamdisk returns, the value is the \<open>connection\<close> argument
  itself. CompressOverlay hands the connection through the \<open>run\<close> of the base class
  and returns what that gave back; it returns the connection it received provided
  the inherited \<open>run\<close> does.
\<close>

theorem deploy_run_returns_connection:
  "(fst (ApplyOverlayImage_run env connection s) = Inr c' \<longrightarrow> c' = connection) \<and>
   (fst (ApplyOverlayTftp_run env parameters connection s) = Inr c' \<longrightarrow> c' = connection) \<and>
   (fst (ExtractNfsRootfs_run env parameters connection s) = Inr c' \<longrightarrow> c' = connection) \<and>
   (fst (ExtractModules_run env parameters connection s) = Inr c' \<longrightarrow> c' = connection) \<and>
   (fst (ExtractRamdisk_run env compressed_fname fname parameters connection s) = Inr c' \<longrightarrow>
      c' = connection) \<and>
   (fst (CompressRamdisk_run env parameters connection s) = Inr c' \<longrightarrow> c' = connection) \<and>
   ((\<forall>t c''. fst (Action_run connection t) = Inr c'' \<longrightarrow> c'' = connection) \<and>
    fst (CompressOverlay_run env Action_run job_parameters level connection s) = Inr c' \<longrightarrow>
      c' = connection)"
proof -
  have "c' = connection"
    if a: "\<forall>t c''. fst (Action_run connection t) = Inr c'' \<longrightarrow> c'' = connection"
      and r: "fst (CompressOverlay_run env Action_run job_parameters level connection s) = Inr c'"
  proof -
    from a have "returns_only connection (Action_run connection)"
      by (simp add: returns_only_def)
    then have "returns_only connection
                 (CompressOverlay_run env Action_run job_parameters level connection)"
      by (rule CompressOverlay_returns_only)
    from returns_onlyD [OF this r] show ?thesis .
  qed
  then show ?thesis
    by (auto dest: returns_onlyD [OF ApplyOverlayImage_returns_only]
          returns_onlyD [OF ApplyOverlayTftp_returns_only]
          returns_onlyD [OF ExtractNfsRootfs_returns_only]
          returns_onlyD [OF ExtractModules_returns_only]
          returns_onlyD [OF ExtractRamdisk_returns_only]
          returns_onlyD [OF CompressRamdisk_returns_only])
qed


theorem deploy_run_returns_connection_witness:
  "fst (ApplyOverlayImage_run small_env (7::nat)
          (state_of [(''compress-overlay'', PDict [(''output'', PStr ''/tmp/overlay'')]),
                     (''loop_mount'', PDict [(''mntdir'', PStr ''/mnt/image'')])] disk0)) = Inr 7 \<and>
   fst (ApplyOverlayImage_run small_env (7::nat)
          (state_of [(''compress-overlay'', PDict [(''output'', PStr ''/tmp/overlay'')]),
                     (''loop_mount'', PDict [(''mntdir'', PStr ''/mnt/image'')])] disk0)) \<noteq> Inr 8 \<and>
   fst (CompressOverlay_run small_env ret [(''output_dir'', PStr ''/tmp/out'')] ''1.2'' (7::nat)
          (state_of [(''lava-overlay'', PDict [(''location'', PStr ''/tmp/overlay'')]),
                     (''compress-overlay'', PDict []),
                     (''lava_test_results_dir'', PStr ''/lava-1'')] disk0)) = Inr 7 \<and>
   fst (CompressOverlay_run small_env ret [(''output_dir'', PStr ''/tmp/out'')] ''1.2'' (7::nat)
          (state_of [(''lava-overlay'', PDict [(''location'', PStr ''/tmp/overlay'')]),
                     (''compress-overlay'', PDict []),
                     (''lava_test_results_dir'', PStr ''/lava-1'')] disk0)) \<noteq> Inr 8"
proof -
  let ?s = "state_of [(''compress-overlay'', PDict [(''output'', PStr ''/tmp/overlay'')]),
                      (''loop_mount'', PDict [(''mntdir'', PStr ''/mnt/image'')])] disk0"
  let ?t = "state_of [(''lava-overlay'', PDict [(''location'', PStr ''/tmp/overlay'')]),
                      (''compress-overlay'', PDict []),
                      (''lava_test_results_dir'', PStr ''/lava-1'')] disk0"
  let ?jp = "[(''output_dir'', PStr ''/tmp/out'')]"
  have a: "fst (ApplyOverlayImage_run small_env (7::nat) ?s) = Inr 7"
    by (simp add: ApplyOverlayImage_run_def state_of_def disk0_def pbind_def data_item_def
          lift_def call_def except_def tarfile_open_def)
  have b: "fst (CompressOverlay_run small_env ret ?jp ''1.2'' (7::nat) ?t) = Inr 7"
    by (simp add: CompressOverlay_run_def state_of_def disk0_def valid_def pbind_def
          data_item_def lift_def call_def except_def tarfile_open_def data_setitem_def
          suffix_to_prefix)
  have r: "\<forall>t c''. fst (ret (7::nat) t) = Inr c'' \<longrightarrow> c'' = 7"
    by simp
  have c: "fst (ApplyOverlayImage_run small_env (7::nat) ?s) \<noteq> Inr 8"
    using deploy_run_returns_connection
      [of small_env "7::nat" ?s 8 "[]" "''a''" "''b''" ret ?jp "''1.2''"]
    by auto
  have d: "fst (CompressOverlay_run small_env ret ?jp ''1.2'' (7::nat) ?t) \<noteq> Inr 8"
    using deploy_run_returns_connection
      [of small_env "7::nat" ?t 8 "[]" "''a''" "''b''" ret ?jp "''1.2''"] r
    by auto
  from a b c d show ?thesis by blast
qed

text \<open>
  C8. For each of the nested overlay sub-actions ExtractNfsRootfs, ExtractRamdisk,
  ExtractModules and CompressRamdisk: if the parameter that triggers it
  (\<open>nfsrootfs\<close>, \<open>ramdisk\<close>, \<open>modules\<close>, \<open>ramdisk\<close>) is absent from its parameters,
  \<open>run\<close> is a no-op. It returns the Connection it received and leaves the data
  store, the file system and the Action's errors as they were, in every environment.
\<close>

theorem nested_sub_actions_noop:
  "(map_of parameters ''nfsrootfs'' = None \<longrightarrow>
      ExtractNfsRootfs_run env parameters connection s = (Inr connection, s)) \<and>
   (map_of parameters ''ramdisk'' = None \<longrightarrow>
      ExtractRamdisk_run env compressed_fname fname parameters connection s =
        (Inr connection, s)) \<and>
   (map_of parameters ''modules'' = None \<longrightarrow>
      ExtractModules_run env parameters connection s = (Inr connection, s)) \<and>
   (map_of parameters ''ramdisk'' = None \<longrightarrow>
      CompressRamdisk_run env parameters connection s = (Inr connection, s))"
  by (simp add: ExtractNfsRootfs_run_def ExtractRamdisk_run_def ExtractModules_run_def
        CompressRamdisk_run_def)

theorem nested_sub_actions_noop_witness:
  "map_of [(''kernel'', PStr ''zImage'')] ''nfsrootfs'' = None \<and>
   map_of [(''kernel'', PStr ''zImage'')] ''ramdisk'' = None \<and>
   map_of [(''kernel'', PStr ''zImage'')] ''modules'' = None \<and>
   ExtractNfsRootfs_run small_env [(''kernel'', PStr ''zImage'')] (7::nat) (state_of [] disk0) =
     (Inr 7, state_of [] disk0) \<and>
   ExtractRamdisk_run small_env ''ramdisk.cpio.gz'' ''ramdisk.cpio''
       [(''kernel'', PStr ''zImage'')] (7::nat) (state_of [] disk0) =
     (Inr 7, state_of [] disk0) \<and>
   ExtractModules_run small_env [(''kernel'', PStr ''zImage'')] (7::nat) (state_of [] disk0) =
     (Inr 7, state_of [] disk0) \<and>
   CompressRamdisk_run small_env [(''kernel'', PStr ''zImage'')] (7::nat) (state_of [] disk0) =
     (Inr 7, state_of [] disk0)"
  using nested_sub_actions_noop [of "[(''kernel'', PStr ''zImage'')]" small_env "7::nat"
      "state_of [] disk0" "''ramdisk.cpio.gz''" "''ramdisk.cpio''"]
  by simp

text \<open>
  C9. \<open>ApplyOverlayTftp.run\<close> has no idempotency guard. With both \<open>ramdisk\<close> and
  \<open>nfsrootfs\<close> absent from the parameters, \<open>overlay_file\<close> stays \<open>None\<close>, the attempt
  to open it raises (ValueError, which the handler for TarError lets through), and
  nothing is returned; the state is as before. Whenever \<open>run\<close> does return, one of
  the two parameters is present, a non-empty \<open>output\<close> is recorded under
  \<open>compress-overlay\<close>, and the entry of the chosen branch is in the store
  (\<open>extracted_ramdisk\<close> under \<open>extract-overlay-ramdisk\<close> for a ramdisk, the
  \<open>extract-nfsrootfs\<close> entry otherwise).
\<close>

theorem ApplyOverlayTftp_run_no_guard:
  "(map_of parameters ''ramdisk'' = None \<and> map_of parameters ''nfsrootfs'' = None \<longrightarrow>
      ApplyOverlayTftp_run env parameters connection s =
        (Inl (ValueError ''nothing to open''), s)) \<and>
   (fst (ApplyOverlayTftp_run env parameters connection s) = Inr c' \<longrightarrow>
      (map_of parameters ''ramdisk'' \<noteq> None \<or> map_of parameters ''nfsrootfs'' \<noteq> None) \<and>
      (\<exists>co output. map_of (data s) ''compress-overlay'' = Some co \<and>
                   py_get co ''output'' PNone = Inr output \<and> truthy output) \<and>
      (if dict_get parameters ''ramdisk'' PNone \<noteq> PNone
       then \<exists>er directory. map_of (data s) ''extract-overlay-ramdisk'' = Some er \<and>
                           py_getitem er ''extracted_ramdisk'' = Inr directory
       else \<exists>en directory. map_of (data s) ''extract-nfsrootfs'' = Some en \<and>
                           py_get en ''nfsroot'' PNone = Inr directory))"
proof (intro conjI impI)
  assume "map_of parameters ''ramdisk'' = None \<and> map_of parameters ''nfsrootfs'' = None"
  then show "ApplyOverlayTftp_run env parameters connection s =
               (Inl (ValueError ''nothing to open''), s)"
    by (simp add: ApplyOverlayTftp_run_def open_extractall_close_def tarfile_open_def
          except_def on_TarError_def pbind_def)
next
  assume "fst (ApplyOverlayTftp_run env parameters connection s) = Inr c'"
  then obtain s' where r: "ApplyOverlayTftp_run env parameters connection s = (Inr c', s')"
    by (rule fst_InrE)
  have none: "ApplyOverlayTftp_run env parameters connection s \<noteq> (Inr c', s')"
    if "dict_get parameters ''ramdisk'' PNone = PNone"
      and "dict_get parameters ''nfsrootfs'' PNone = PNone"
    using that
    by (simp add: ApplyOverlayTftp_run_def open_extractall_close_def tarfile_open_def
          except_def on_TarError_def pbind_def)
  with r have some: "dict_get parameters ''ramdisk'' PNone \<noteq> PNone \<or>
                     dict_get parameters ''nfsrootfs'' PNone \<noteq> PNone"
    by blast
  then show "map_of parameters ''ramdisk'' \<noteq> None \<or> map_of parameters ''nfsrootfs'' \<noteq> None"
    by (auto simp: dict_get_def)
  from r some show "\<exists>co output. map_of (data s) ''compress-overlay'' = Some co \<and>
                     py_get co ''output'' PNone = Inr output \<and> truthy output"
    unfolding ApplyOverlayTftp_run_def
    by (auto simp: inversion split: if_splits dest!: unpack_Inr_truthy)
  from r some show "if dict_get parameters ''ramdisk'' PNone \<noteq> PNone
       then \<exists>er directory. map_of (data s) ''extract-overlay-ramdisk'' = Some er \<and>
                           py_getitem er ''extracted_ramdisk'' = Inr directory
       else \<exists>en directory. map_of (data s) ''extract-nfsrootfs'' = Some en \<and>
                           py_get en ''nfsroot'' PNone = Inr directory"
    unfolding ApplyOverlayTftp_run_def
    by (auto simp: inversion split: if_splits)
qed

theorem ApplyOverlayTftp_run_no_guard_witness:
  "map_of [(''kernel'', PStr ''zImage'')] ''ramdisk'' = None \<and>
   map_of [(''kernel'', PStr ''zImage'')] ''nfsrootfs'' = None \<and>
   ApplyOverlayTftp_run small_env [(''kernel'', PStr ''zImage'')] (7::nat)
     (state_of [(''compress-overlay'', PDict [(''output'', PStr ''/tmp/out/overlay-1.2.tar.gz'')])]
        disk0) =
     (Inl (ValueError ''nothing to open''),
      state_of [(''compress-overlay'', PDict [(''output'', PStr ''/tmp/out/overlay-1.2.tar.gz'')])]
        disk0)"
  using ApplyOverlayTftp_run_no_guard [of "[(''kernel'', PStr ''zImage'')]" small_env "7::nat"
      "state_of [(''compress-overlay'', PDict [(''output'', PStr ''/tmp/out/overlay-1.2.tar.gz'')])]
         disk0"]
  by simp

text \<open>
  C10. If CompressOverlay enters its run phase with validation errors recorded
  (\<open>self.valid\<close> is false) while the overlay scratch location is recorded and exists,
  \<open>run\<close> returns the Connection at once: it raises nothing, creates no tarball and
  writes no \<open>output\<close> entry. The store and the errors are as before, and the only
  call to the environment is the existence check (\<open>f'\<close> is the file system as that
  check left it), so a later reader of the \<open>compress-overlay\<close> output key finds what
  was there before.
\<close>

theorem CompressOverlay_run_invalid_skips:
  assumes "map_of (data s) ''lava-overlay'' = Some (PDict lo)"
    and "map_of lo ''location'' = Some loc"
    and "env (PathExists loc) (fs s) = (Inr there, f')"
    and "truthy there"
    and "\<not> valid s"
  shows "CompressOverlay_run env Action_run job_parameters level connection s =
           (Inr connection, s\<lparr>fs := f'\<rparr>)"
  using assms
  by (simp add: CompressOverlay_run_def pbind_data_item_Some pbind_call key_in_dict valid_def)

theorem CompressOverlay_run_invalid_skips_witness:
  "map_of (data ((state_of [(''lava-overlay'', PDict [(''location'', PStr ''/tmp/overlay'')]),
                            (''compress-overlay'', PDict [])] disk0)
                 \<lparr>errors := [PStr ''Unable to locate lava_test_shell support scripts.'']\<rparr>))
     ''lava-overlay'' = Some (PDict [(''location'', PStr ''/tmp/overlay'')]) \<and>
   map_of [(''location'', PStr ''/tmp/overlay'')] ''location'' = Some (PStr ''/tmp/overlay'') \<and>
   small_env (PathExists (PStr ''/tmp/overlay'')) disk0 = (Inr (PBool True), disk0) \<and>
   \<not> valid ((state_of [(''lava-overlay'', PDict [(''location'', PStr ''/tmp/overlay'')]),
                        (''compress-overlay'', PDict [])] disk0)
              \<lparr>errors := [PStr ''Unable to locate lava_test_shell support scripts.'']\<rparr>) \<and>
   CompressOverlay_run small_env ret [(''output_dir'', PStr ''/tmp/out'')] ''1.2'' (7::nat)
     ((state_of [(''lava-overlay'', PDict [(''location'', PStr ''/tmp/overlay'')]),
                 (''compress-overlay'', PDict [])] disk0)
        \<lparr>errors := [PStr ''Unable to locate lava_test_shell support scripts.'']\<rparr>) =
     (Inr 7,
      (state_of [(''lava-overlay'', PDict [(''location'', PStr ''/tmp/overlay'')]),
                 (''compress-overlay'', PDict [])] disk0)
        \<lparr>errors := [PStr ''Unable to locate lava_test_shell support scripts.'']\<rparr>)"
  using CompressOverlay_run_invalid_skips
    [of "(state_of [(''lava-overlay'', PDict [(''location'', PStr ''/tmp/overlay'')]),
                    (''compress-overlay'', PDict [])] disk0)
           \<lparr>errors := [PStr ''Unable to locate lava_test_shell support scripts.'']\<rparr>"
        "[(''location'', PStr ''/tmp/overlay'')]" "PStr ''/tmp/overlay''" small_env
        "PBool True" disk0 ret "[(''output_dir'', PStr ''/tmp/out'')]" "''1.2''" "7::nat"]
  by (simp add: state_of_def disk0_def valid_def)

end
